theory Spec2Isabelle
  imports Main "HOL-Library.Sublist"
begin

section \<open>JavaScript values\<close>

text \<open>
  The server (\<^verbatim>\<open>src/api/server.ts\<close>) handles dynamically typed data: the parsed upstream
  body \<^verbatim>\<open>data\<close> has type \<^verbatim>\<open>any\<close>. A number is an IEEE double: not-a-number, an
  infinity with its sign (\<^verbatim>\<open>JSON.parse("1e999")\<close>), or a finite value \<open>m * 2 ^ e\<close>.
  A string is the list of its code units; an object is the list of its own properties.
\<close>

datatype js_number = NaN | Infinity bool | Finite int int

datatype js_value =
    JUndefined
  | JNull
  | JBool bool
  | JNum js_number
  | JStr string
  | JArr "js_value list"
  | JObj "(string \<times> js_value) list"

text \<open>
  A thrown value. \<open>Error m\<close> is any instance of \<^verbatim>\<open>Error\<close> (also of its subclasses
  \<^verbatim>\<open>TypeError\<close>, \<^verbatim>\<open>SyntaxError\<close>) with message \<open>m\<close>; \<open>NonError v\<close> is a thrown value for
  which \<^verbatim>\<open>error instanceof Error\<close> is false.
\<close>

datatype js_exception = Error string | NonError js_value

text \<open>Truthiness, as \<^verbatim>\<open>||\<close>, \<^verbatim>\<open>!\<close> and \<^verbatim>\<open>if\<close> read a value.\<close>

fun truthy :: "js_value \<Rightarrow> bool" where
  "truthy JUndefined = False"
| "truthy JNull = False"
| "truthy (JBool b) = b"
| "truthy (JNum NaN) = False"
| "truthy (JNum (Infinity s)) = True"
| "truthy (JNum (Finite m e)) = (m \<noteq> 0)"
| "truthy (JStr s) = (s \<noteq> [])"
| "truthy (JArr xs) = True"
| "truthy (JObj kvs) = True"

fun nullish :: "js_value \<Rightarrow> bool" where
  "nullish JUndefined = True"
| "nullish JNull = True"
| "nullish v = False"

text \<open>
  Reading a property of a value that is neither \<^verbatim>\<open>undefined\<close> nor \<^verbatim>\<open>null\<close>, for the four
  property names the source reads: \<^verbatim>\<open>choices\<close>, \<^verbatim>\<open>0\<close>, \<^verbatim>\<open>message\<close> and \<^verbatim>\<open>content\<close>. No
  built-in prototype defines one of them, so an object answers with its own property, an
  array and a string answer only to the index \<^verbatim>\<open>0\<close>, and everything else is
  \<^verbatim>\<open>undefined\<close>.
\<close>

fun read_prop :: "js_value \<Rightarrow> string \<Rightarrow> js_value" where
  "read_prop (JObj kvs) p = (case map_of kvs p of None \<Rightarrow> JUndefined | Some v \<Rightarrow> v)"
| "read_prop (JArr xs) p =
     (if p = ''0'' then (case xs of [] \<Rightarrow> JUndefined | x # rest \<Rightarrow> x) else JUndefined)"
| "read_prop (JStr s) p =
     (if p = ''0'' then (case s of [] \<Rightarrow> JUndefined | c # rest \<Rightarrow> JStr [c]) else JUndefined)"
| "read_prop v p = JUndefined"

text \<open>
  The \<^verbatim>\<open>TypeError\<close> of a property read on \<^verbatim>\<open>undefined\<close> or \<^verbatim>\<open>null\<close>, with the message
  of the V8 engine.
\<close>

definition cannot_read :: "js_value \<Rightarrow> string \<Rightarrow> js_exception" where
  "cannot_read v p =
     Error (''Cannot read properties of '' @ (if v = JNull then ''null'' else ''undefined'')
            @ '' (reading '' @ [CHR 0x27] @ p @ [CHR 0x27] @ '')'')"

text \<open>\<^verbatim>\<open>v.p\<close> and \<^verbatim>\<open>v[0]\<close>: throws on \<^verbatim>\<open>undefined\<close> and \<^verbatim>\<open>null\<close>.\<close>

definition get :: "js_value \<Rightarrow> string \<Rightarrow> js_exception + js_value" where
  "get v p = (if nullish v then Inl (cannot_read v p) else Inr (read_prop v p))"

text \<open>\<^verbatim>\<open>v?.p\<close>: \<^verbatim>\<open>undefined\<close> on \<^verbatim>\<open>undefined\<close> and \<^verbatim>\<open>null\<close>, never throws.\<close>

definition opt_get :: "js_value \<Rightarrow> string \<Rightarrow> js_value" where
  "opt_get v p = (if nullish v then JUndefined else read_prop v p)"

text \<open>\<^verbatim>\<open>s.startsWith(p)\<close> and \<^verbatim>\<open>s.slice(n)\<close> for \<open>n \<ge> 0\<close>.\<close>

definition startsWith :: "string \<Rightarrow> string \<Rightarrow> bool" where
  "startsWith s p = (take (length p) s = p)"

definition slice :: "string \<Rightarrow> nat \<Rightarrow> string" where
  "slice s n = drop n s"

text \<open>The decimal text of a number in a template literal (\<^verbatim>\<open>${response.status}\<close>).\<close>

fun string_of_nat :: "nat \<Rightarrow> string" where
  "string_of_nat n =
     (if n < 10 then [''0123456789'' ! n]
      else string_of_nat (n div 10) @ [''0123456789'' ! (n mod 10)])"

declare string_of_nat.simps [simp del]

section \<open>The upstream request and response\<close>

record message =
  role :: string
  content :: string

record requestPayload =
  model :: string
  messages :: "message list"

text \<open>
  The arguments of \<^verbatim>\<open>fetch\<close>. The body is \<^verbatim>\<open>JSON.stringify(requestPayload)\<close>; the model
  keeps the payload itself.
\<close>

record request =
  url :: string
  http_method :: string
  http_headers :: "(string \<times> string) list"
  body :: requestPayload

text \<open>
  What the handler reads of a \<^verbatim>\<open>Response\<close>: the status, the status text, and what
  awaiting \<^verbatim>\<open>response.text()\<close> and \<^verbatim>\<open>response.json()\<close> gives (either may reject).
\<close>

record response =
  status :: nat
  statusText :: string
  text_result :: "js_exception + string"
  json_result :: "js_exception + js_value"

text \<open>\<^verbatim>\<open>response.ok\<close>: the status is in the range 200 to 299.\<close>

definition ok :: "response \<Rightarrow> bool" where
  "ok r = (200 \<le> status r \<and> status r \<le> 299)"

text \<open>
  The world outside the handler: the process environment variable and the network. \<open>fetch\<close>
  gives, for a request, the response or the rejection. Every function below returns the
  list of the requests it has sent beside its result.
\<close>

record world =
  REKA_API_KEY :: "string option"
  fetch :: "request \<Rightarrow> js_exception + response"

section \<open>The upstream client\<close>

text \<open>
  \<^verbatim>\<open>data.choices[0]?.message?.content || "No response received"\<close> (lines 66 and 126).
\<close>

definition extract_result :: "js_value \<Rightarrow> js_exception + js_value" where
  "extract_result data =
     (case get data ''choices'' of
        Inl e \<Rightarrow> Inl e
      | Inr choices \<Rightarrow>
          (case get choices ''0'' of
             Inl e \<Rightarrow> Inl e
           | Inr choice \<Rightarrow>
               (let c = opt_get (opt_get choice ''message'') ''content''
                in Inr (if truthy c then c else JStr ''No response received''))))"

text \<open>The arguments of the \<^verbatim>\<open>fetch\<close> of both client functions (lines 40 to 47, 100 to 107).\<close>

definition upstream_request :: "requestPayload \<Rightarrow> string \<Rightarrow> request" where
  "upstream_request payload rekaApiKey =
     \<lparr>url = ''https://api.reka.ai/v1/chat/completions'',
      http_method = ''POST'',
      http_headers = [(''Content-Type'', ''application/json''),
                      (''Authorization'', ''Bearer '' @ rekaApiKey)],
      body = payload\<rparr>"

text \<open>
  Lines 40 to 73 of \<^verbatim>\<open>verifyClaimWithReka\<close> and lines 100 to 133 of
  \<^verbatim>\<open>findSimilarWithReka\<close>, which differ only in what they log: one \<^verbatim>\<open>fetch\<close>, the
  error of a response that is not \<^verbatim>\<open>ok\<close> (its body is read and logged), the result of one
  that is.
\<close>

definition send :: "world \<Rightarrow> requestPayload \<Rightarrow> string \<Rightarrow> (js_exception + js_value) \<times> request list" where
  "send w payload rekaApiKey =
     (let req = upstream_request payload rekaApiKey
      in ((case fetch w req of
             Inl e \<Rightarrow> Inl e
           | Inr response \<Rightarrow>
               if \<not> ok response then
                 (case text_result response of
                    Inl e \<Rightarrow> Inl e
                  | Inr errorText \<Rightarrow>
                      Inl (Error (''Reka API error: '' @ string_of_nat (status response)
                                  @ '' '' @ statusText response)))
               else
                 (case json_result response of
                    Inl e \<Rightarrow> Inl e
                  | Inr data \<Rightarrow> extract_result data)),
          [req]))"

definition verify_framing :: string where
  "verify_framing = ''Analyze the given claim and provide a verification assessment. Return your response as a JSON object with 'verdict' (true/false/uncertain), 'confidence' (0-1), and 'reasoning' fields. Please verify this claim: ''"

definition verify_requestPayload :: "string \<Rightarrow> requestPayload" where
  "verify_requestPayload claim =
     \<lparr>model = ''reka-flash-research'',
      messages = [\<lparr>role = ''user'', content = verify_framing @ claim\<rparr>]\<rparr>"

definition verifyClaimWithReka :: "world \<Rightarrow> string \<Rightarrow> string \<Rightarrow> (js_exception + js_value) \<times> request list" where
  "verifyClaimWithReka w claim rekaApiKey = send w (verify_requestPayload claim) rekaApiKey"

definition similar_prompt :: "string \<Rightarrow> string \<Rightarrow> string" where
  "similar_prompt target attribute =
     ''Find items similar to the given target based on the specified attribute. Provide a detailed analysis and list of similar items with explanations.''
     @ [CHR 0x0A, CHR 0x0A]
     @ ''Target: '' @ target @ [CHR 0x0A]
     @ ''Attribute to compare: '' @ attribute @ [CHR 0x0A, CHR 0x0A]
     @ ''Analyze the target and find similar items based on the '' @ [CHR 0x22] @ attribute @ [CHR 0x22]
     @ '' attribute. Provide concrete examples and explain why they are similar.''"

definition similar_requestPayload :: "string \<Rightarrow> string \<Rightarrow> requestPayload" where
  "similar_requestPayload target attribute =
     \<lparr>model = ''reka-flash-research'',
      messages = [\<lparr>role = ''user'', content = similar_prompt target attribute\<rparr>]\<rparr>"

definition findSimilarWithReka :: "world \<Rightarrow> string \<Rightarrow> string \<Rightarrow> string \<Rightarrow> (js_exception + js_value) \<times> request list" where
  "findSimilarWithReka w target attribute rekaApiKey =
     send w (similar_requestPayload target attribute) rekaApiKey"

section \<open>Credential resolution\<close>

text \<open>
  A value of the invocation's headers: \<^verbatim>\<open>string | string[]\<close>; a header that is absent or
  \<^verbatim>\<open>undefined\<close> is \<open>None\<close> in the map. The handler's second argument is
  \<^verbatim>\<open>context\<close>, read as \<^verbatim>\<open>context?.requestInfo?.headers\<close>: each level may be missing.
\<close>

datatype header_value = Single string | Multiple "string list"

record requestInfo =
  headers :: "(string \<rightharpoonup> header_value) option"

record handler_context =
  requestInfo :: "requestInfo option"

text \<open>
  \<^verbatim>\<open>headers['Authorization'] ?? headers['authorization']\<close>: the second is read only when
  the first is absent.
\<close>

definition rawAuthHeader :: "(string \<rightharpoonup> header_value) \<Rightarrow> header_value option" where
  "rawAuthHeader hs =
     (case hs ''Authorization'' of Some v \<Rightarrow> Some v | None \<Rightarrow> hs ''authorization'')"

text \<open>\<^verbatim>\<open>if (rawAuthHeader)\<close>: the empty string is falsy, every array is truthy.\<close>

fun header_truthy :: "header_value \<Rightarrow> bool" where
  "header_truthy (Single s) = (s \<noteq> [])"
| "header_truthy (Multiple xs) = True"

text \<open>
  \<^verbatim>\<open>Array.isArray(rawAuthHeader) ? rawAuthHeader[0] : rawAuthHeader\<close>, when it is a string
  (\<^verbatim>\<open>typeof authHeader === 'string'\<close>): the first element of an empty array is
  \<^verbatim>\<open>undefined\<close>.
\<close>

fun authHeader :: "header_value \<Rightarrow> string option" where
  "authHeader (Single s) = Some s"
| "authHeader (Multiple []) = None"
| "authHeader (Multiple (x # xs)) = Some x"

text \<open>
  Lines 155 to 165 (and 221 to 231): the value assigned to \<^verbatim>\<open>rekaApiKey\<close> from the
  header, \<open>None\<close> when the assignment is not reached.
\<close>

definition bearerToken :: "handler_context option \<Rightarrow> string option" where
  "bearerToken ctx =
     (case ctx of
        None \<Rightarrow> None
      | Some c \<Rightarrow>
     (case requestInfo c of
        None \<Rightarrow> None
      | Some ri \<Rightarrow>
     (case headers ri of
        None \<Rightarrow> None
      | Some hs \<Rightarrow>
     (case rawAuthHeader hs of
        None \<Rightarrow> None
      | Some raw \<Rightarrow>
          if header_truthy raw then
            (case authHeader raw of
               None \<Rightarrow> None
             | Some a \<Rightarrow> if startsWith a ''Bearer '' then Some (slice a 7) else None)
          else None))))"

text \<open>
  Lines 152 to 165 (and 218 to 231): \<^verbatim>\<open>rekaApiKey\<close> starts as the environment variable
  and is overwritten by the header's token.
\<close>

definition resolveApiKey :: "string option \<Rightarrow> handler_context option \<Rightarrow> string option" where
  "resolveApiKey envKey ctx = (case bearerToken ctx of Some t \<Rightarrow> Some t | None \<Rightarrow> envKey)"

section \<open>The tool handlers\<close>

record content_block =
  block_type :: string
  block_text :: js_value

record tool_response =
  content :: "content_block list"

definition text_response :: "js_value \<Rightarrow> tool_response" where
  "text_response t = \<lparr>content = [\<lparr>block_type = ''text'', block_text = t\<rparr>]\<rparr>"

definition missing_key_error :: js_exception where
  "missing_key_error = Error ''REKA_API_KEY must be provided via environment variable 'REKA_API_KEY' or Authorization header''"

text \<open>\<^verbatim>\<open>error instanceof Error ? error.message : 'Unknown error'\<close>\<close>

fun error_message :: "js_exception \<Rightarrow> string" where
  "error_message (Error m) = m"
| "error_message (NonError v) = ''Unknown error''"

text \<open>The body of the \<^verbatim>\<open>try\<close> block of the \<^verbatim>\<open>verify_claim\<close> handler (lines 151 to 183).\<close>

definition verify_claim_try ::
  "world \<Rightarrow> string \<Rightarrow> handler_context option \<Rightarrow> (js_exception + tool_response) \<times> request list" where
  "verify_claim_try w claim ctx =
     (case resolveApiKey (REKA_API_KEY w) ctx of
        None \<Rightarrow> (Inl missing_key_error, [])
      | Some rekaApiKey \<Rightarrow>
          if rekaApiKey = [] then (Inl missing_key_error, [])
          else
            (case verifyClaimWithReka w claim rekaApiKey of
               (Inl e, calls) \<Rightarrow> (Inl e, calls)
             | (Inr verification, calls) \<Rightarrow> (Inr (text_response verification), calls)))"

text \<open>The handler of \<^verbatim>\<open>verify_claim\<close> (lines 144 to 199): the \<^verbatim>\<open>try\<close> with its \<^verbatim>\<open>catch\<close>.\<close>

definition verify_claim ::
  "world \<Rightarrow> string \<Rightarrow> handler_context option \<Rightarrow> (js_exception + tool_response) \<times> request list" where
  "verify_claim w claim ctx =
     (case verify_claim_try w claim ctx of
        (Inr r, calls) \<Rightarrow> (Inr r, calls)
      | (Inl error, calls) \<Rightarrow>
          (Inr (text_response (JStr (''Error verifying claim: '' @ error_message error))), calls))"

text \<open>The body of the \<^verbatim>\<open>try\<close> block of the \<^verbatim>\<open>find_similar\<close> handler (lines 217 to 249).\<close>

definition find_similar_try ::
  "world \<Rightarrow> string \<Rightarrow> string \<Rightarrow> handler_context option \<Rightarrow> (js_exception + tool_response) \<times> request list" where
  "find_similar_try w target attribute ctx =
     (case resolveApiKey (REKA_API_KEY w) ctx of
        None \<Rightarrow> (Inl missing_key_error, [])
      | Some rekaApiKey \<Rightarrow>
          if rekaApiKey = [] then (Inl missing_key_error, [])
          else
            (case findSimilarWithReka w target attribute rekaApiKey of
               (Inl e, calls) \<Rightarrow> (Inl e, calls)
             | (Inr similarItems, calls) \<Rightarrow> (Inr (text_response similarItems), calls)))"

text \<open>The handler of \<^verbatim>\<open>find_similar\<close> (lines 208 to 265).\<close>

definition find_similar ::
  "world \<Rightarrow> string \<Rightarrow> string \<Rightarrow> handler_context option \<Rightarrow> (js_exception + tool_response) \<times> request list" where
  "find_similar w target attribute ctx =
     (case find_similar_try w target attribute ctx of
        (Inr r, calls) \<Rightarrow> (Inr r, calls)
      | (Inl error, calls) \<Rightarrow>
          (Inr (text_response (JStr (''Error finding similar items: '' @ error_message error))), calls))"

section \<open>Argument validation\<close>

text \<open>
  Both tools are registered with a schema: \<^verbatim>\<open>{ claim: z.string() }\<close> (line 143) and
  \<^verbatim>\<open>{ target: z.string(), attribute: z.string() }\<close> (lines 204 to 207). The validator
  itself belongs to the libraries the server is built on.
\<close>

text \<open>
  Modelled from the spec: the check of one \<^verbatim>\<open>z.string()\<close> field, which the libraries
  \<^verbatim>\<open>zod\<close> and \<^verbatim>\<open>mcp-handler\<close> perform and \<^verbatim>\<open>src/\<close> does not hold. The spec's section 4.2
  asks for "required string fields": the field must be present and a string.
\<close>

fun z_string :: "js_value \<Rightarrow> string option" where
  "z_string (JStr s) = Some s"
| "z_string v = None"

text \<open>The field \<open>name\<close> of the arguments of an invocation.\<close>

fun argument :: "js_value \<Rightarrow> string \<Rightarrow> js_value" where
  "argument (JObj kvs) name = (case map_of kvs name of None \<Rightarrow> JUndefined | Some v \<Rightarrow> v)"
| "argument v name = JUndefined"

text \<open>
  A protocol-level error of an invocation: the arguments fail the schema, or the handler
  itself raises.
\<close>

datatype protocol_error = InvalidArguments | HandlerRaised js_exception

text \<open>
  Modelled from the spec: the dispatch of an invocation, which \<^verbatim>\<open>mcp-handler\<close> performs
  and \<^verbatim>\<open>src/\<close> does not hold. The spec's sections 4.2 and 7: arguments that do not match
  the declared shape are rejected with a protocol-level error before any credential
  resolution or upstream call; the others reach the handler.
\<close>

definition call_verify_claim ::
  "world \<Rightarrow> js_value \<Rightarrow> handler_context option \<Rightarrow> (protocol_error + tool_response) \<times> request list" where
  "call_verify_claim w args ctx =
     (case z_string (argument args ''claim'') of
        None \<Rightarrow> (Inl InvalidArguments, [])
      | Some claim \<Rightarrow>
          (case verify_claim w claim ctx of
             (Inl e, calls) \<Rightarrow> (Inl (HandlerRaised e), calls)
           | (Inr r, calls) \<Rightarrow> (Inr r, calls)))"

definition call_find_similar ::
  "world \<Rightarrow> js_value \<Rightarrow> handler_context option \<Rightarrow> (protocol_error + tool_response) \<times> request list" where
  "call_find_similar w args ctx =
     (case z_string (argument args ''target'') of
        None \<Rightarrow> (Inl InvalidArguments, [])
      | Some target \<Rightarrow>
          (case z_string (argument args ''attribute'') of
             None \<Rightarrow> (Inl InvalidArguments, [])
           | Some attribute \<Rightarrow>
               (case find_similar w target attribute ctx of
                  (Inl e, calls) \<Rightarrow> (Inl (HandlerRaised e), calls)
                | (Inr r, calls) \<Rightarrow> (Inr r, calls))))"

section \<open>Sample invocations\<close>

text \<open>
  Concrete upstreams and contexts, on which the theorems below are run: a network whose
  \<^verbatim>\<open>fetch\<close> always resolves to one response, one whose \<^verbatim>\<open>fetch\<close> always rejects, the
  context that carries given headers, and the body of a completion with one choice.
\<close>

definition fetch_resolves :: "response \<Rightarrow> request \<Rightarrow> js_exception + response" where
  "fetch_resolves r req = Inr r"

definition fetch_rejects :: "js_exception \<Rightarrow> request \<Rightarrow> js_exception + response" where
  "fetch_rejects e req = Inl e"

definition with_headers :: "(string \<rightharpoonup> header_value) \<Rightarrow> handler_context option" where
  "with_headers hs = Some \<lparr>requestInfo = Some \<lparr>headers = Some hs\<rparr>\<rparr>"

definition completion :: "js_value \<Rightarrow> js_value" where
  "completion c = JObj [(''choices'', JArr [JObj [(''message'', JObj [(''content'', c)])]])]"

section \<open>Facts about the handlers\<close>

lemma send_calls: "snd (send w payload key) = [upstream_request payload key]"
  by (simp add: send_def Let_def)

lemma verifyClaimWithReka_calls:
  "snd (verifyClaimWithReka w claim key) = [upstream_request (verify_requestPayload claim) key]"
  by (simp add: verifyClaimWithReka_def send_calls)

lemma findSimilarWithReka_calls:
  "snd (findSimilarWithReka w target attribute key) =
     [upstream_request (similar_requestPayload target attribute) key]"
  by (simp add: findSimilarWithReka_def send_calls)

lemma verify_claim_missing:
  assumes "resolveApiKey (REKA_API_KEY w) ctx = None \<or> resolveApiKey (REKA_API_KEY w) ctx = Some []"
  shows "verify_claim w claim ctx =
           (Inr (text_response (JStr (''Error verifying claim: '' @ error_message missing_key_error))), [])"
  using assms by (auto simp: verify_claim_def verify_claim_try_def)

lemma find_similar_missing:
  assumes "resolveApiKey (REKA_API_KEY w) ctx = None \<or> resolveApiKey (REKA_API_KEY w) ctx = Some []"
  shows "find_similar w target attribute ctx =
           (Inr (text_response (JStr (''Error finding similar items: '' @ error_message missing_key_error))), [])"
  using assms by (auto simp: find_similar_def find_similar_try_def)

lemma verify_claim_resolved:
  assumes "resolveApiKey (REKA_API_KEY w) ctx = Some key" and "key \<noteq> []"
  shows "verify_claim w claim ctx =
           (case fst (verifyClaimWithReka w claim key) of
              Inl e \<Rightarrow> Inr (text_response (JStr (''Error verifying claim: '' @ error_message e)))
            | Inr v \<Rightarrow> Inr (text_response v),
            [upstream_request (verify_requestPayload claim) key])"
proof (cases "verifyClaimWithReka w claim key")
  case (Pair res calls)
  then have "calls = [upstream_request (verify_requestPayload claim) key]"
    using verifyClaimWithReka_calls [of w claim key] by simp
  with Pair assms show ?thesis
    by (cases res) (simp_all add: verify_claim_def verify_claim_try_def)
qed

lemma find_similar_resolved:
  assumes "resolveApiKey (REKA_API_KEY w) ctx = Some key" and "key \<noteq> []"
  shows "find_similar w target attribute ctx =
           (case fst (findSimilarWithReka w target attribute key) of
              Inl e \<Rightarrow> Inr (text_response (JStr (''Error finding similar items: '' @ error_message e)))
            | Inr v \<Rightarrow> Inr (text_response v),
            [upstream_request (similar_requestPayload target attribute) key])"
proof (cases "findSimilarWithReka w target attribute key")
  case (Pair res calls)
  then have "calls = [upstream_request (similar_requestPayload target attribute) key]"
    using findSimilarWithReka_calls [of w target attribute key] by simp
  with Pair assms show ?thesis
    by (cases res) (simp_all add: find_similar_def find_similar_try_def)
qed

lemma resolve_cases:
  obtains (missing) "resolveApiKey envKey ctx = None \<or> resolveApiKey envKey ctx = Some []"
        | (resolved) key where "resolveApiKey envKey ctx = Some key" and "key \<noteq> []"
  by (cases "resolveApiKey envKey ctx") auto

lemma verify_claim_text:
  "\<exists>t. fst (verify_claim w claim ctx) = Inr (text_response t)"
proof (cases "REKA_API_KEY w" ctx rule: resolve_cases)
  case missing
  then show ?thesis by (auto simp: verify_claim_missing)
next
  case (resolved key)
  then show ?thesis
    by (cases "fst (verifyClaimWithReka w claim key)") (auto simp: verify_claim_resolved)
qed

lemma find_similar_text:
  "\<exists>t. fst (find_similar w target attribute ctx) = Inr (text_response t)"
proof (cases "REKA_API_KEY w" ctx rule: resolve_cases)
  case missing
  then show ?thesis by (auto simp: find_similar_missing)
next
  case (resolved key)
  then show ?thesis
    by (cases "fst (findSimilarWithReka w target attribute key)") (auto simp: find_similar_resolved)
qed

lemma text_response_block:
  "tool_response.content (text_response t) = [\<lparr>block_type = ''text'', block_text = t\<rparr>]"
  by (simp add: text_response_def)

lemma startsWith_prefix: "startsWith s p = prefix p s"
proof
  assume "startsWith s p"
  then have "s = p @ drop (length p) s"
    by (metis startsWith_def append_take_drop_id)
  then show "prefix p s" by (metis prefixI)
next
  assume "prefix p s"
  then show "startsWith s p" by (auto simp: startsWith_def prefix_def)
qed

lemma bearerToken_no_context: "bearerToken None = None"
  by (simp add: bearerToken_def)

lemma bearerToken_absent:
  assumes "hs ''Authorization'' = None" and "hs ''authorization'' = None"
  shows "bearerToken (with_headers hs) = None"
  using assms by (simp add: bearerToken_def with_headers_def rawAuthHeader_def)

lemma rawAuthHeader_selected:
  assumes "hs ''Authorization'' = Some v \<or> (hs ''Authorization'' = None \<and> hs ''authorization'' = Some v)"
  shows "rawAuthHeader hs = Some v"
  using assms by (auto simp: rawAuthHeader_def)

lemma bearerToken_bearer:
  assumes "rawAuthHeader hs = Some v"
      and "v = Single (''Bearer '' @ k) \<or> v = Multiple ((''Bearer '' @ k) # rest)"
  shows "bearerToken (with_headers hs) = Some k"
  using assms by (auto simp: bearerToken_def with_headers_def startsWith_def slice_def)

lemma bearerToken_other:
  assumes "rawAuthHeader hs = Some v"
      and "v = Single a \<or> v = Multiple (a # rest)"
      and "\<not> prefix ''Bearer '' a"
  shows "bearerToken (with_headers hs) = None"
  using assms by (auto simp: bearerToken_def with_headers_def startsWith_prefix)

lemma bearerToken_empty_array:
  assumes "rawAuthHeader hs = Some (Multiple [])"
  shows "bearerToken (with_headers hs) = None"
  using assms by (simp add: bearerToken_def with_headers_def)

lemma resolve_override: "bearerToken ctx = Some k \<Longrightarrow> resolveApiKey envKey ctx = Some k"
  by (simp add: resolveApiKey_def)

lemma resolve_default: "bearerToken ctx = None \<Longrightarrow> resolveApiKey envKey ctx = envKey"
  by (simp add: resolveApiKey_def)

lemma resolve_missing:
  assumes "envKey = None \<or> envKey = Some []" and "bearerToken ctx = None \<or> bearerToken ctx = Some []"
  shows "resolveApiKey envKey ctx = None \<or> resolveApiKey envKey ctx = Some []"
  using assms by (auto simp: resolveApiKey_def)

lemma calls_empty_iff:
  "(snd (verify_claim w claim ctx) = []) =
     (resolveApiKey (REKA_API_KEY w) ctx = None \<or> resolveApiKey (REKA_API_KEY w) ctx = Some [])"
proof (cases "REKA_API_KEY w" ctx rule: resolve_cases)
  case missing
  then show ?thesis by (simp add: verify_claim_missing)
next
  case (resolved key)
  then show ?thesis by (simp add: verify_claim_resolved)
qed

lemma find_calls_empty_iff:
  "(snd (find_similar w target attribute ctx) = []) =
     (resolveApiKey (REKA_API_KEY w) ctx = None \<or> resolveApiKey (REKA_API_KEY w) ctx = Some [])"
proof (cases "REKA_API_KEY w" ctx rule: resolve_cases)
  case missing
  then show ?thesis by (simp add: find_similar_missing)
next
  case (resolved key)
  then show ?thesis by (simp add: find_similar_resolved)
qed

lemma configured_key_lost_iff:
  assumes "REKA_API_KEY w = Some K1" and "K1 \<noteq> []"
  shows "(snd (verify_claim w claim ctx) = []) = (bearerToken ctx = Some [])"
    and "(snd (find_similar w target attribute ctx) = []) = (bearerToken ctx = Some [])"
  using assms
  by (cases "bearerToken ctx"; simp add: calls_empty_iff find_calls_empty_iff resolveApiKey_def)+

lemma send_http_failure:
  assumes "fetch w (upstream_request payload key) = Inr r" and "\<not> ok r" and "text_result r = Inr errorText"
  shows "send w payload key =
           (Inl (Error (''Reka API error: '' @ string_of_nat (status r) @ '' '' @ statusText r)),
            [upstream_request payload key])"
  using assms by (simp add: send_def Let_def)

lemma sublist_in_error_text:
  "sublist code (prefix_text @ ''Reka API error: '' @ code @ '' '' @ rest)"
proof -
  have "prefix_text @ ''Reka API error: '' @ code @ '' '' @ rest =
        (prefix_text @ ''Reka API error: '') @ code @ ('' '' @ rest)"
    by simp
  then show ?thesis by (metis sublist_appendI)
qed

lemma extract_result_empty_choices:
  "extract_result (JObj [(''choices'', JArr [])]) = Inr (JStr ''No response received'')"
  by (simp add: extract_result_def get_def opt_get_def)

lemma extract_result_absent_content:
  assumes "opt_get (opt_get choice ''message'') ''content'' = JUndefined
           \<or> opt_get (opt_get choice ''message'') ''content'' = JNull"
  shows "extract_result (JObj [(''choices'', JArr (choice # rest))]) = Inr (JStr ''No response received'')"
  using assms by (auto simp: extract_result_def get_def)

lemma extract_result_completion:
  "truthy c \<Longrightarrow> extract_result (completion c) = Inr c"
  by (simp add: extract_result_def completion_def get_def opt_get_def)

lemma verify_framing_fields:
  "sublist ''Return your response as a JSON object with 'verdict' (true/false/uncertain), 'confidence' (0-1), and 'reasoning' fields.'' verify_framing"
  unfolding verify_framing_def by code_simp



lemma call_verify_claim_string:
  "call_verify_claim w (JObj [(''claim'', JStr claim)]) ctx =
     (case verify_claim w claim ctx of
        (Inl e, calls) \<Rightarrow> (Inl (HandlerRaised e), calls)
      | (Inr r, calls) \<Rightarrow> (Inr r, calls))"
  by (simp add: call_verify_claim_def)

lemma call_find_similar_strings:
  "call_find_similar w (JObj [(''target'', JStr target), (''attribute'', JStr attribute)]) ctx =
     (case find_similar w target attribute ctx of
        (Inl e, calls) \<Rightarrow> (Inl (HandlerRaised e), calls)
      | (Inr r, calls) \<Rightarrow> (Inr r, calls))"
  by (simp add: call_find_similar_def)

lemma call_verify_claim_reaches_handler:
  "call_verify_claim w (JObj [(''claim'', JStr claim)]) ctx =
     (Inr (projr (fst (verify_claim w claim ctx))), snd (verify_claim w claim ctx))"
proof -
  obtain t where "fst (verify_claim w claim ctx) = Inr (text_response t)"
    using verify_claim_text by blast
  then show ?thesis
    by (cases "verify_claim w claim ctx") (simp add: call_verify_claim_string)
qed

lemma call_find_similar_reaches_handler:
  "call_find_similar w (JObj [(''target'', JStr target), (''attribute'', JStr attribute)]) ctx =
     (Inr (projr (fst (find_similar w target attribute ctx))), snd (find_similar w target attribute ctx))"
proof -
  obtain t where "fst (find_similar w target attribute ctx) = Inr (text_response t)"
    using find_similar_text by blast
  then show ?thesis
    by (cases "find_similar w target attribute ctx") (simp add: call_find_similar_strings)
qed

section \<open>The claims\<close>

text \<open>
  C1. Whatever the world and the context, the handler of \<^verbatim>\<open>verify_claim\<close> and the handler
  of \<^verbatim>\<open>find_similar\<close>, called with string arguments (arguments that passed the schema),
  return and do not raise, and what they return holds exactly one content block, of type
  \<^verbatim>\<open>text\<close>: on upstream success, on a missing credential and on an upstream HTTP or
  transport failure alike. A protocol-level error of an invocation is the error of invalid
  arguments, and arises only when a required string field is missing or is not a string.
\<close>

theorem handlers_return_one_text_block:
  "(\<exists>r b. fst (verify_claim w claim ctx) = Inr r \<and> tool_response.content r = [b] \<and> block_type b = ''text'')
   \<and> (\<exists>r b. fst (find_similar w target attribute ctx) = Inr r \<and> tool_response.content r = [b] \<and> block_type b = ''text'')
   \<and> (fst (call_verify_claim w args ctx) = Inl e \<longrightarrow>
        e = InvalidArguments \<and> z_string (argument args ''claim'') = None)
   \<and> (fst (call_find_similar w args ctx) = Inl e \<longrightarrow>
        e = InvalidArguments \<and>
        (z_string (argument args ''target'') = None \<or> z_string (argument args ''attribute'') = None))"
proof (intro conjI impI)
  obtain t where "fst (verify_claim w claim ctx) = Inr (text_response t)"
    using verify_claim_text by blast
  then show "\<exists>r b. fst (verify_claim w claim ctx) = Inr r \<and> tool_response.content r = [b] \<and> block_type b = ''text''"
    by (simp add: text_response_block)
next
  obtain t where "fst (find_similar w target attribute ctx) = Inr (text_response t)"
    using find_similar_text by blast
  then show "\<exists>r b. fst (find_similar w target attribute ctx) = Inr r \<and> tool_response.content r = [b] \<and> block_type b = ''text''"
    by (simp add: text_response_block)
next
  assume a: "fst (call_verify_claim w args ctx) = Inl e"
  show "e = InvalidArguments"
  proof (cases "z_string (argument args ''claim'')")
    case None
    with a show ?thesis by (simp add: call_verify_claim_def)
  next
    case (Some c)
    obtain t where "fst (verify_claim w c ctx) = Inr (text_response t)"
      using verify_claim_text by blast
    with a Some show ?thesis
      by (cases "verify_claim w c ctx") (simp add: call_verify_claim_def)
  qed
  show "z_string (argument args ''claim'') = None"
  proof (cases "z_string (argument args ''claim'')")
    case None
    then show ?thesis .
  next
    case (Some c)
    obtain t where "fst (verify_claim w c ctx) = Inr (text_response t)"
      using verify_claim_text by blast
    with a Some show ?thesis
      by (cases "verify_claim w c ctx") (simp add: call_verify_claim_def)
  qed
next
  assume a: "fst (call_find_similar w args ctx) = Inl e"
  have valid: False
    if "z_string (argument args ''target'') = Some t" "z_string (argument args ''attribute'') = Some at"
    for t at
  proof -
    obtain x where "fst (find_similar w t at ctx) = Inr (text_response x)"
      using find_similar_text by blast
    with a that show False
      by (cases "find_similar w t at ctx") (simp add: call_find_similar_def)
  qed
  show "e = InvalidArguments"
    using a valid
    by (cases "z_string (argument args ''target'')"; cases "z_string (argument args ''attribute'')")
       (auto simp: call_find_similar_def)
  show "z_string (argument args ''target'') = None \<or> z_string (argument args ''attribute'') = None"
    using valid
    by (cases "z_string (argument args ''target'')"; cases "z_string (argument args ''attribute'')") auto
qed

theorem handlers_return_one_text_block_witness:
  "(\<exists>r b. fst (verify_claim \<lparr>REKA_API_KEY = None, fetch = fetch_rejects (Error ''fetch failed'')\<rparr>
                 ''The Earth is round'' None) = Inr r
           \<and> tool_response.content r = [b] \<and> block_type b = ''text'')
   \<and> (\<exists>r b. fst (find_similar \<lparr>REKA_API_KEY = Some ''K1'', fetch = fetch_rejects (Error ''fetch failed'')\<rparr>
                 ''ChatGPT'' ''functionality'' None) = Inr r
           \<and> tool_response.content r = [b] \<and> block_type b = ''text'')
   \<and> fst (call_verify_claim \<lparr>REKA_API_KEY = Some ''K1'', fetch = fetch_rejects (Error ''fetch failed'')\<rparr>
            (JObj []) None) = Inl InvalidArguments
   \<and> z_string (argument (JObj []) ''claim'') = None
   \<and> fst (call_find_similar \<lparr>REKA_API_KEY = Some ''K1'', fetch = fetch_rejects (Error ''fetch failed'')\<rparr>
            (JObj [(''target'', JStr ''ChatGPT''), (''attribute'', JNum (Finite 1 0))]) None) = Inl InvalidArguments
   \<and> z_string (argument (JObj [(''target'', JStr ''ChatGPT''), (''attribute'', JNum (Finite 1 0))]) ''attribute'') = None"
  using handlers_return_one_text_block
          [of "\<lparr>REKA_API_KEY = None, fetch = fetch_rejects (Error ''fetch failed'')\<rparr>"
              "''The Earth is round''" None]
        handlers_return_one_text_block
          [of "\<lparr>REKA_API_KEY = Some ''K1'', fetch = fetch_rejects (Error ''fetch failed'')\<rparr>"
              "''The Earth is round''" None "''ChatGPT''" "''functionality''" "JObj []" InvalidArguments]
        handlers_return_one_text_block
          [of "\<lparr>REKA_API_KEY = Some ''K1'', fetch = fetch_rejects (Error ''fetch failed'')\<rparr>"
              "''The Earth is round''" None "''ChatGPT''" "''functionality''"
              "JObj [(''target'', JStr ''ChatGPT''), (''attribute'', JNum (Finite 1 0))]" InvalidArguments]
  by (simp add: call_verify_claim_def call_find_similar_def)

text \<open>
  C2. Credential resolution. The configured key is the default. The header is read under
  the key \<^verbatim>\<open>Authorization\<close> and, when that one is absent, under \<^verbatim>\<open>authorization\<close>; an array
  gives its first element. A value \<^verbatim>\<open>Bearer \<close> followed by \<open>K2\<close> resolves to \<open>K2\<close>, a value
  that does not start with \<^verbatim>\<open>Bearer \<close> leaves the configured key, and so do absent headers
  and an absent context. With configured key \<open>K1\<close>, the header \<^verbatim>\<open>Authorization: Bearer K2\<close>
  makes the one upstream request carry the header \<^verbatim>\<open>Authorization: Bearer K2\<close>, and the
  header \<^verbatim>\<open>Token K2\<close> makes it carry \<^verbatim>\<open>Authorization: Bearer K1\<close>.
\<close>

theorem credential_precedence:
  "((hs ''Authorization'' = Some v \<or> (hs ''Authorization'' = None \<and> hs ''authorization'' = Some v))
      \<and> (v = Single (''Bearer '' @ K2) \<or> v = Multiple ((''Bearer '' @ K2) # rest))
      \<longrightarrow> resolveApiKey envKey (with_headers hs) = Some K2)
   \<and> ((hs ''Authorization'' = Some v \<or> (hs ''Authorization'' = None \<and> hs ''authorization'' = Some v))
      \<and> (v = Single a \<or> v = Multiple (a # rest)) \<and> \<not> prefix ''Bearer '' a
      \<longrightarrow> resolveApiKey envKey (with_headers hs) = envKey)
   \<and> ((hs ''Authorization'' = Some v \<or> (hs ''Authorization'' = None \<and> hs ''authorization'' = Some v))
      \<and> v = Multiple []
      \<longrightarrow> resolveApiKey envKey (with_headers hs) = envKey)
   \<and> (hs ''Authorization'' = None \<and> hs ''authorization'' = None
      \<longrightarrow> resolveApiKey envKey (with_headers hs) = envKey)
   \<and> resolveApiKey envKey None = envKey
   \<and> (K2 \<noteq> [] \<longrightarrow>
        snd (verify_claim \<lparr>REKA_API_KEY = Some K1, fetch = f\<rparr> claim
               (with_headers [''Authorization'' \<mapsto> Single (''Bearer '' @ K2)]))
          = [\<lparr>url = ''https://api.reka.ai/v1/chat/completions'', http_method = ''POST'',
             http_headers = [(''Content-Type'', ''application/json''), (''Authorization'', ''Bearer '' @ K2)],
             body = verify_requestPayload claim\<rparr>])
   \<and> (K1 \<noteq> [] \<longrightarrow>
        snd (verify_claim \<lparr>REKA_API_KEY = Some K1, fetch = f\<rparr> claim
               (with_headers [''Authorization'' \<mapsto> Single (''Token '' @ K2)]))
          = [\<lparr>url = ''https://api.reka.ai/v1/chat/completions'', http_method = ''POST'',
             http_headers = [(''Content-Type'', ''application/json''), (''Authorization'', ''Bearer '' @ K1)],
             body = verify_requestPayload claim\<rparr>])"
proof (intro conjI impI)
  assume "(hs ''Authorization'' = Some v \<or> (hs ''Authorization'' = None \<and> hs ''authorization'' = Some v))
      \<and> (v = Single (''Bearer '' @ K2) \<or> v = Multiple ((''Bearer '' @ K2) # rest))"
  then show "resolveApiKey envKey (with_headers hs) = Some K2"
    using rawAuthHeader_selected [of hs v] bearerToken_bearer [of hs v K2 rest]
    by (simp add: resolve_override)
next
  assume "(hs ''Authorization'' = Some v \<or> (hs ''Authorization'' = None \<and> hs ''authorization'' = Some v))
      \<and> (v = Single a \<or> v = Multiple (a # rest)) \<and> \<not> prefix ''Bearer '' a"
  then show "resolveApiKey envKey (with_headers hs) = envKey"
    using rawAuthHeader_selected [of hs v] bearerToken_other [of hs v a rest]
    by (simp add: resolve_default)
next
  assume "(hs ''Authorization'' = Some v \<or> (hs ''Authorization'' = None \<and> hs ''authorization'' = Some v))
      \<and> v = Multiple []"
  then show "resolveApiKey envKey (with_headers hs) = envKey"
    using rawAuthHeader_selected [of hs v] bearerToken_empty_array [of hs]
    by (auto simp: resolve_default)
next
  assume "hs ''Authorization'' = None \<and> hs ''authorization'' = None"
  then show "resolveApiKey envKey (with_headers hs) = envKey"
    by (simp add: bearerToken_absent resolve_default)
next
  show "resolveApiKey envKey None = envKey"
    by (simp add: bearerToken_no_context resolve_default)
next
  let ?hs = "[''Authorization'' \<mapsto> Single (''Bearer '' @ K2)]"
  assume k2: "K2 \<noteq> []"
  have "rawAuthHeader ?hs = Some (Single (''Bearer '' @ K2))"
    by (simp add: rawAuthHeader_def)
  then have "bearerToken (with_headers ?hs) = Some K2"
    by (rule bearerToken_bearer) simp
  then have "resolveApiKey (REKA_API_KEY \<lparr>REKA_API_KEY = Some K1, fetch = f\<rparr>) (with_headers ?hs) = Some K2"
    by (rule resolve_override)
  from verify_claim_resolved [OF this k2]
  show "snd (verify_claim \<lparr>REKA_API_KEY = Some K1, fetch = f\<rparr> claim (with_headers ?hs))
          = [\<lparr>url = ''https://api.reka.ai/v1/chat/completions'', http_method = ''POST'',
             http_headers = [(''Content-Type'', ''application/json''), (''Authorization'', ''Bearer '' @ K2)],
             body = verify_requestPayload claim\<rparr>]"
    by (simp add: upstream_request_def)
next
  let ?hs = "[''Authorization'' \<mapsto> Single (''Token '' @ K2)]"
  assume k1: "K1 \<noteq> []"
  have "rawAuthHeader ?hs = Some (Single (''Token '' @ K2))"
    by (simp add: rawAuthHeader_def)
  then have "bearerToken (with_headers ?hs) = None"
    by (rule bearerToken_other [where a = "''Token '' @ K2" and rest = "[]"]) simp_all
  then have "resolveApiKey (REKA_API_KEY \<lparr>REKA_API_KEY = Some K1, fetch = f\<rparr>) (with_headers ?hs) = Some K1"
    by (simp add: resolve_default)
  from verify_claim_resolved [OF this k1]
  show "snd (verify_claim \<lparr>REKA_API_KEY = Some K1, fetch = f\<rparr> claim (with_headers ?hs))
          = [\<lparr>url = ''https://api.reka.ai/v1/chat/completions'', http_method = ''POST'',
             http_headers = [(''Content-Type'', ''application/json''), (''Authorization'', ''Bearer '' @ K1)],
             body = verify_requestPayload claim\<rparr>]"
    by (simp add: upstream_request_def)
qed

theorem credential_precedence_witness:
  "resolveApiKey (Some ''K1'') (with_headers [''authorization'' \<mapsto> Multiple [''Bearer K2'', ''Bearer K3'']]) = Some ''K2''
   \<and> resolveApiKey (Some ''K1'') (with_headers [''authorization'' \<mapsto> Multiple [''Basic K2'', ''Bearer K3'']]) = Some ''K1''
   \<and> resolveApiKey (Some ''K1'') (with_headers [''Authorization'' \<mapsto> Multiple []]) = Some ''K1''
   \<and> resolveApiKey (Some ''K1'') (with_headers Map.empty) = Some ''K1''
   \<and> resolveApiKey (Some ''K1'') None = Some ''K1''
   \<and> snd (verify_claim \<lparr>REKA_API_KEY = Some ''K1'', fetch = fetch_rejects (Error ''fetch failed'')\<rparr> ''The Earth is round''
            (with_headers [''Authorization'' \<mapsto> Single ''Bearer K2'']))
        = [\<lparr>url = ''https://api.reka.ai/v1/chat/completions'', http_method = ''POST'',
            http_headers = [(''Content-Type'', ''application/json''), (''Authorization'', ''Bearer K2'')],
            body = verify_requestPayload ''The Earth is round''\<rparr>]
   \<and> snd (verify_claim \<lparr>REKA_API_KEY = Some ''K1'', fetch = fetch_rejects (Error ''fetch failed'')\<rparr> ''The Earth is round''
            (with_headers [''Authorization'' \<mapsto> Single ''Token K2'']))
        = [\<lparr>url = ''https://api.reka.ai/v1/chat/completions'', http_method = ''POST'',
            http_headers = [(''Content-Type'', ''application/json''), (''Authorization'', ''Bearer K1'')],
            body = verify_requestPayload ''The Earth is round''\<rparr>]"
  using credential_precedence [of "[''authorization'' \<mapsto> Multiple [''Bearer K2'', ''Bearer K3'']]"
          "Multiple [''Bearer K2'', ''Bearer K3'']" "''K2''" "[''Bearer K3'']" "Some ''K1''"
          "''Basic K2''" "''K1''" "fetch_rejects (Error ''fetch failed'')" "''The Earth is round''"]
        credential_precedence [of "[''authorization'' \<mapsto> Multiple [''Basic K2'', ''Bearer K3'']]"
          "Multiple [''Basic K2'', ''Bearer K3'']" "''K2''" "[''Bearer K3'']" "Some ''K1''"
          "''Basic K2''" "''K1''" "fetch_rejects (Error ''fetch failed'')" "''The Earth is round''"]
        credential_precedence [of "[''Authorization'' \<mapsto> Multiple []]"
          "Multiple []" "''K2''" "[''Bearer K3'']" "Some ''K1''"
          "''Basic K2''" "''K1''" "fetch_rejects (Error ''fetch failed'')" "''The Earth is round''"]
        credential_precedence [of Map.empty
          "Multiple [''Basic K2'', ''Bearer K3'']" "''K2''" "[''Bearer K3'']" "Some ''K1''"
          "''Basic K2''" "''K1''" "fetch_rejects (Error ''fetch failed'')" "''The Earth is round''"]
  by simp

text \<open>
  C3. When the configured key is absent or empty and the header gives no token or an empty
  one, both handlers send no upstream request and return a response whose content is one
  block, of type \<^verbatim>\<open>text\<close>, whose text contains \<^verbatim>\<open>REKA_API_KEY must be provided\<close>.
\<close>

theorem missing_credential_response:
  assumes "REKA_API_KEY w = None \<or> REKA_API_KEY w = Some []"
      and "bearerToken ctx = None \<or> bearerToken ctx = Some []"
  shows "(\<exists>resp b t. verify_claim w claim ctx = (Inr resp, [])
              \<and> tool_response.content resp = [b] \<and> block_type b = ''text'' \<and> block_text b = JStr t
              \<and> sublist ''REKA_API_KEY must be provided'' t)
         \<and> (\<exists>resp b t. find_similar w target attribute ctx = (Inr resp, [])
              \<and> tool_response.content resp = [b] \<and> block_type b = ''text'' \<and> block_text b = JStr t
              \<and> sublist ''REKA_API_KEY must be provided'' t)"
proof -
  have "resolveApiKey (REKA_API_KEY w) ctx = None \<or> resolveApiKey (REKA_API_KEY w) ctx = Some []"
    using assms by (rule resolve_missing)
  then have v: "verify_claim w claim ctx =
      (Inr (text_response (JStr (''Error verifying claim: '' @ error_message missing_key_error))), [])"
    and f: "find_similar w target attribute ctx =
      (Inr (text_response (JStr (''Error finding similar items: '' @ error_message missing_key_error))), [])"
    by (simp_all add: verify_claim_missing find_similar_missing)
  have m: "error_message missing_key_error = ''REKA_API_KEY must be provided'' @
      '' via environment variable 'REKA_API_KEY' or Authorization header''"
    by (simp add: missing_key_error_def)
  have sv: "sublist ''REKA_API_KEY must be provided'' (''Error verifying claim: '' @ error_message missing_key_error)"
    unfolding m by (rule sublist_appendI)
  have sf: "sublist ''REKA_API_KEY must be provided'' (''Error finding similar items: '' @ error_message missing_key_error)"
    unfolding m by (rule sublist_appendI)
  have block: "tool_response.content (text_response x) = [\<lparr>block_type = ''text'', block_text = x\<rparr>]" for x
    by (rule text_response_block)
  show ?thesis
  proof (intro conjI)
    show "\<exists>resp b t. verify_claim w claim ctx = (Inr resp, [])
              \<and> tool_response.content resp = [b] \<and> block_type b = ''text'' \<and> block_text b = JStr t
              \<and> sublist ''REKA_API_KEY must be provided'' t"
      using sv by (simp add: v block)
    show "\<exists>resp b t. find_similar w target attribute ctx = (Inr resp, [])
              \<and> tool_response.content resp = [b] \<and> block_type b = ''text'' \<and> block_text b = JStr t
              \<and> sublist ''REKA_API_KEY must be provided'' t"
      using sf by (simp add: f block)
  qed
qed

theorem missing_credential_response_witness:
  "verify_claim
     \<lparr>REKA_API_KEY = None,
      fetch = fetch_resolves \<lparr>status = 200, statusText = ''OK'', text_result = Inr ''{}'',
                              json_result = Inr (completion (JStr ''true''))\<rparr>\<rparr>
     ''The Earth is round'' (with_headers [''Authorization'' \<mapsto> Single ''Token K2''])
   = (Inr \<lparr>content = [\<lparr>block_type = ''text'',
                         block_text = JStr ''Error verifying claim: REKA_API_KEY must be provided via environment variable 'REKA_API_KEY' or Authorization header''\<rparr>]\<rparr>,
      [])
   \<and> sublist ''REKA_API_KEY must be provided''
        ''Error verifying claim: REKA_API_KEY must be provided via environment variable 'REKA_API_KEY' or Authorization header''
   \<and> find_similar
     \<lparr>REKA_API_KEY = None,
      fetch = fetch_resolves \<lparr>status = 200, statusText = ''OK'', text_result = Inr ''{}'',
                              json_result = Inr (completion (JStr ''true''))\<rparr>\<rparr>
     ''ChatGPT'' ''functionality'' (with_headers [''Authorization'' \<mapsto> Single ''Token K2''])
   = (Inr \<lparr>content = [\<lparr>block_type = ''text'',
                         block_text = JStr ''Error finding similar items: REKA_API_KEY must be provided via environment variable 'REKA_API_KEY' or Authorization header''\<rparr>]\<rparr>,
      [])
   \<and> sublist ''REKA_API_KEY must be provided''
        ''Error finding similar items: REKA_API_KEY must be provided via environment variable 'REKA_API_KEY' or Authorization header''"
proof -
  let ?w = "\<lparr>REKA_API_KEY = None,
             fetch = fetch_resolves \<lparr>status = 200, statusText = ''OK'', text_result = Inr ''{}'',
                                     json_result = Inr (completion (JStr ''true''))\<rparr>\<rparr>"
  let ?ctx = "with_headers [''Authorization'' \<mapsto> Single ''Token K2'']"
  have env: "REKA_API_KEY ?w = None \<or> REKA_API_KEY ?w = Some []" by simp
  have hdr: "bearerToken ?ctx = None \<or> bearerToken ?ctx = Some []"
    by (simp add: bearerToken_def with_headers_def rawAuthHeader_def startsWith_def)
  have v: "verify_claim ?w ''The Earth is round'' ?ctx
      = (Inr \<lparr>content = [\<lparr>block_type = ''text'',
                         block_text = JStr ''Error verifying claim: REKA_API_KEY must be provided via environment variable 'REKA_API_KEY' or Authorization header''\<rparr>]\<rparr>,
         [])"
    by (simp add: verify_claim_def verify_claim_try_def resolveApiKey_def bearerToken_def
          with_headers_def rawAuthHeader_def startsWith_def missing_key_error_def text_response_def)
  have f: "find_similar ?w ''ChatGPT'' ''functionality'' ?ctx
      = (Inr \<lparr>content = [\<lparr>block_type = ''text'',
                         block_text = JStr ''Error finding similar items: REKA_API_KEY must be provided via environment variable 'REKA_API_KEY' or Authorization header''\<rparr>]\<rparr>,
         [])"
    by (simp add: find_similar_def find_similar_try_def resolveApiKey_def bearerToken_def
          with_headers_def rawAuthHeader_def startsWith_def missing_key_error_def text_response_def)
  show ?thesis
    using missing_credential_response
            [OF env hdr, of "''The Earth is round''" "''ChatGPT''" "''functionality''"]
    unfolding v f by auto
qed


text \<open>
  C5, as the claim states it, fails: the error raised for a response with status 401
  carries the status code and the status text, and not the response body.
\<close>

theorem upstream_error_drops_body:
  "fst (verifyClaimWithReka
         \<lparr>REKA_API_KEY = Some ''K1'',
          fetch = fetch_resolves \<lparr>status = 401, statusText = ''Unauthorized'',
                                  text_result = Inr ''invalid api key'',
                                  json_result = Inl (Error ''Unexpected token i in JSON at position 0'')\<rparr>\<rparr>
         ''The Earth is round'' ''K1'')
     = Inl (Error ''Reka API error: 401 Unauthorized'')
   \<and> \<not> sublist ''invalid api key'' ''Reka API error: 401 Unauthorized''"
proof
  have "string_of_nat 401 = ''401''" by code_simp
  then show "fst (verifyClaimWithReka
         \<lparr>REKA_API_KEY = Some ''K1'',
          fetch = fetch_resolves \<lparr>status = 401, statusText = ''Unauthorized'',
                                  text_result = Inr ''invalid api key'',
                                  json_result = Inl (Error ''Unexpected token i in JSON at position 0'')\<rparr>\<rparr>
         ''The Earth is round'' ''K1'')
     = Inl (Error ''Reka API error: 401 Unauthorized'')"
    by (simp add: verifyClaimWithReka_def send_def Let_def fetch_resolves_def ok_def)
  show "\<not> sublist ''invalid api key'' ''Reka API error: 401 Unauthorized''"
    by code_simp
qed

text \<open>
  C5, amended. When the upstream answers with a status that is not a success and its body
  is read, the client sends that one request only and raises the error
  \<^verbatim>\<open>Reka API error: <status> <statusText>\<close>, the same whatever the body: it carries the
  status code and the status text, and not the body. The handler returns a response whose
  content is one block, of type \<^verbatim>\<open>text\<close>, whose text contains the status code and the
  status text.
\<close>

theorem upstream_http_failure:
  assumes "\<not> ok r" and "text_result r = Inr errorText"
  shows "(fetch w (upstream_request (verify_requestPayload claim) key) = Inr r \<longrightarrow>
            verifyClaimWithReka w claim key =
              (Inl (Error (''Reka API error: '' @ string_of_nat (status r) @ '' '' @ statusText r)),
               [upstream_request (verify_requestPayload claim) key])
            \<and> (resolveApiKey (REKA_API_KEY w) ctx = Some key \<and> key \<noteq> [] \<longrightarrow>
                 (\<exists>resp b t. verify_claim w claim ctx =
                        (Inr resp, [upstream_request (verify_requestPayload claim) key])
                      \<and> tool_response.content resp = [b] \<and> block_type b = ''text''
                      \<and> block_text b = JStr t
                      \<and> t = ''Error verifying claim: Reka API error: '' @ string_of_nat (status r)
                              @ '' '' @ statusText r
                      \<and> sublist (string_of_nat (status r)) t \<and> sublist (statusText r) t)))
         \<and> (fetch w (upstream_request (similar_requestPayload target attribute) key) = Inr r \<longrightarrow>
            findSimilarWithReka w target attribute key =
              (Inl (Error (''Reka API error: '' @ string_of_nat (status r) @ '' '' @ statusText r)),
               [upstream_request (similar_requestPayload target attribute) key])
            \<and> (resolveApiKey (REKA_API_KEY w) ctx = Some key \<and> key \<noteq> [] \<longrightarrow>
                 (\<exists>resp b t. find_similar w target attribute ctx =
                        (Inr resp, [upstream_request (similar_requestPayload target attribute) key])
                      \<and> tool_response.content resp = [b] \<and> block_type b = ''text''
                      \<and> block_text b = JStr t
                      \<and> t = ''Error finding similar items: Reka API error: '' @ string_of_nat (status r)
                              @ '' '' @ statusText r
                      \<and> sublist (string_of_nat (status r)) t \<and> sublist (statusText r) t)))"
proof (intro conjI impI)
  let ?msg = "''Reka API error: '' @ string_of_nat (status r) @ '' '' @ statusText r"
  have in_code: "sublist (string_of_nat (status r)) (p @ ?msg)" for p
    using sublist_in_error_text [of "string_of_nat (status r)" p "statusText r"] .
  have in_text: "sublist (statusText r) (p @ ?msg)" for p
    by (metis append.assoc sublist_append_leftI)
  have block: "tool_response.content (text_response x) = [\<lparr>block_type = ''text'', block_text = x\<rparr>]" for x
    by (rule text_response_block)
  {
    assume f: "fetch w (upstream_request (verify_requestPayload claim) key) = Inr r"
    show c: "verifyClaimWithReka w claim key =
              (Inl (Error ?msg), [upstream_request (verify_requestPayload claim) key])"
      unfolding verifyClaimWithReka_def using f assms by (rule send_http_failure)
    assume k: "resolveApiKey (REKA_API_KEY w) ctx = Some key \<and> key \<noteq> []"
    then have v: "verify_claim w claim ctx =
        (Inr (text_response (JStr (''Error verifying claim: '' @ ?msg))),
         [upstream_request (verify_requestPayload claim) key])"
      using c by (simp add: verify_claim_resolved)
    show "\<exists>resp b t. verify_claim w claim ctx =
                        (Inr resp, [upstream_request (verify_requestPayload claim) key])
                      \<and> tool_response.content resp = [b] \<and> block_type b = ''text''
                      \<and> block_text b = JStr t
                      \<and> t = ''Error verifying claim: Reka API error: '' @ string_of_nat (status r)
                              @ '' '' @ statusText r
                      \<and> sublist (string_of_nat (status r)) t \<and> sublist (statusText r) t"
      using in_code [of "''Error verifying claim: ''"] in_text [of "''Error verifying claim: ''"]
      by (simp add: v block)
  }
  {
    assume f: "fetch w (upstream_request (similar_requestPayload target attribute) key) = Inr r"
    show c: "findSimilarWithReka w target attribute key =
              (Inl (Error ?msg), [upstream_request (similar_requestPayload target attribute) key])"
      unfolding findSimilarWithReka_def using f assms by (rule send_http_failure)
    assume k: "resolveApiKey (REKA_API_KEY w) ctx = Some key \<and> key \<noteq> []"
    then have v: "find_similar w target attribute ctx =
        (Inr (text_response (JStr (''Error finding similar items: '' @ ?msg))),
         [upstream_request (similar_requestPayload target attribute) key])"
      using c by (simp add: find_similar_resolved)
    show "\<exists>resp b t. find_similar w target attribute ctx =
                        (Inr resp, [upstream_request (similar_requestPayload target attribute) key])
                      \<and> tool_response.content resp = [b] \<and> block_type b = ''text''
                      \<and> block_text b = JStr t
                      \<and> t = ''Error finding similar items: Reka API error: '' @ string_of_nat (status r)
                              @ '' '' @ statusText r
                      \<and> sublist (string_of_nat (status r)) t \<and> sublist (statusText r) t"
      using in_code [of "''Error finding similar items: ''"] in_text [of "''Error finding similar items: ''"]
      by (simp add: v block)
  }
qed

theorem upstream_http_failure_witness:
  "verifyClaimWithReka
     \<lparr>REKA_API_KEY = Some ''K1'',
      fetch = fetch_resolves \<lparr>status = 401, statusText = ''Unauthorized'',
                              text_result = Inr ''invalid api key'',
                              json_result = Inl (Error ''Unexpected token i in JSON at position 0'')\<rparr>\<rparr>
     ''The Earth is round'' ''K1''
   = (Inl (Error ''Reka API error: 401 Unauthorized''),
      [upstream_request (verify_requestPayload ''The Earth is round'') ''K1''])
   \<and> verify_claim
     \<lparr>REKA_API_KEY = Some ''K1'',
      fetch = fetch_resolves \<lparr>status = 401, statusText = ''Unauthorized'',
                              text_result = Inr ''invalid api key'',
                              json_result = Inl (Error ''Unexpected token i in JSON at position 0'')\<rparr>\<rparr>
     ''The Earth is round'' None
   = (Inr \<lparr>content = [\<lparr>block_type = ''text'',
                         block_text = JStr ''Error verifying claim: Reka API error: 401 Unauthorized''\<rparr>]\<rparr>,
      [upstream_request (verify_requestPayload ''The Earth is round'') ''K1''])
   \<and> sublist ''401'' ''Error verifying claim: Reka API error: 401 Unauthorized''
   \<and> sublist ''Unauthorized'' ''Error verifying claim: Reka API error: 401 Unauthorized''"
proof -
  let ?r = "\<lparr>status = 401, statusText = ''Unauthorized'', text_result = Inr ''invalid api key'',
             json_result = Inl (Error ''Unexpected token i in JSON at position 0'')\<rparr>"
  let ?w = "\<lparr>REKA_API_KEY = Some ''K1'', fetch = fetch_resolves ?r\<rparr>"
  have nok: "\<not> ok ?r" by (simp add: ok_def)
  have body: "text_result ?r = Inr ''invalid api key''" by simp
  have f: "fetch ?w (upstream_request (verify_requestPayload ''The Earth is round'') ''K1'') = Inr ?r"
    by (simp add: fetch_resolves_def)
  have k: "resolveApiKey (REKA_API_KEY ?w) None = Some ''K1'' \<and> ''K1'' \<noteq> []"
    by (simp add: resolveApiKey_def bearerToken_def)
  have d: "string_of_nat 401 = ''401''" by code_simp
  have c: "verifyClaimWithReka ?w ''The Earth is round'' ''K1''
      = (Inl (Error ''Reka API error: 401 Unauthorized''),
         [upstream_request (verify_requestPayload ''The Earth is round'') ''K1''])"
    using d by (simp add: verifyClaimWithReka_def send_def Let_def fetch_resolves_def ok_def)
  have v: "verify_claim ?w ''The Earth is round'' None
      = (Inr \<lparr>content = [\<lparr>block_type = ''text'',
                         block_text = JStr ''Error verifying claim: Reka API error: 401 Unauthorized''\<rparr>]\<rparr>,
         [upstream_request (verify_requestPayload ''The Earth is round'') ''K1''])"
    using k c by (simp add: verify_claim_resolved text_response_def)
  show ?thesis
    using upstream_http_failure [OF nok body, of ?w "''The Earth is round''" "''K1''" None] f k d
    unfolding c v by auto
qed

text \<open>
  C6. A success body without \<^verbatim>\<open>choices\<close>, here \<^verbatim>\<open>{}\<close>: \<^verbatim>\<open>data.choices[0]\<close> raises a
  \<^verbatim>\<open>TypeError\<close> in the client, and the tool's text is the error message, not
  \<^verbatim>\<open>No response received\<close>. (With an empty \<^verbatim>\<open>choices\<close> array, or a first choice whose
  message content is absent, the client does return the placeholder: lemmas
  \<open>extract_result_empty_choices\<close> and \<open>extract_result_absent_content\<close>.)
\<close>

theorem missing_choices_raises:
  "verifyClaimWithReka
     \<lparr>REKA_API_KEY = Some ''K1'',
      fetch = fetch_resolves \<lparr>status = 200, statusText = ''OK'', text_result = Inr ''{}'',
                              json_result = Inr (JObj [])\<rparr>\<rparr>
     ''The Earth is round'' ''K1''
   = (Inl (cannot_read JUndefined ''0''),
      [upstream_request (verify_requestPayload ''The Earth is round'') ''K1''])
   \<and> fst (verify_claim
           \<lparr>REKA_API_KEY = Some ''K1'',
            fetch = fetch_resolves \<lparr>status = 200, statusText = ''OK'', text_result = Inr ''{}'',
                                    json_result = Inr (JObj [])\<rparr>\<rparr>
           ''The Earth is round'' None)
     = Inr (text_response (JStr ''Error verifying claim: Cannot read properties of undefined (reading '0')''))"
proof -
  let ?w = "\<lparr>REKA_API_KEY = Some ''K1'',
      fetch = fetch_resolves \<lparr>status = 200, statusText = ''OK'', text_result = Inr ''{}'',
                              json_result = Inr (JObj [])\<rparr>\<rparr>"
  have c: "verifyClaimWithReka ?w ''The Earth is round'' ''K1''
         = (Inl (cannot_read JUndefined ''0''),
            [upstream_request (verify_requestPayload ''The Earth is round'') ''K1''])"
    by (simp add: verifyClaimWithReka_def send_def Let_def fetch_resolves_def ok_def
          extract_result_def get_def)
  have k: "resolveApiKey (REKA_API_KEY ?w) None = Some ''K1''"
    by (simp add: resolveApiKey_def bearerToken_def)
  have "fst (verify_claim ?w ''The Earth is round'' None)
     = Inr (text_response (JStr (''Error verifying claim: '' @ error_message (cannot_read JUndefined ''0''))))"
    using verify_claim_resolved [OF k, of "''The Earth is round''"] c by simp
  then show ?thesis using c by (simp add: cannot_read_def)
qed



text \<open>
  C8. For every claim string the client of \<^verbatim>\<open>verify_claim\<close> sends one request whose
  payload has the model \<^verbatim>\<open>reka-flash-research\<close> and a single message of role \<^verbatim>\<open>user\<close>;
  its content is the fixed framing sentence, which asks for a JSON object with the fields
  \<^verbatim>\<open>verdict\<close>, \<^verbatim>\<open>confidence\<close> and \<^verbatim>\<open>reasoning\<close>, followed by the claim, which it contains as
  a substring. The handler sends this request when the key is resolved.
\<close>

theorem verify_claim_prompt:
  "snd (verifyClaimWithReka w claim key) = [upstream_request (verify_requestPayload claim) key]
   \<and> body (upstream_request (verify_requestPayload claim) key) = verify_requestPayload claim
   \<and> model (verify_requestPayload claim) = ''reka-flash-research''
   \<and> messages (verify_requestPayload claim) = [\<lparr>role = ''user'', message.content = verify_framing @ claim\<rparr>]
   \<and> sublist claim (verify_framing @ claim)
   \<and> sublist ''Return your response as a JSON object with 'verdict' (true/false/uncertain), 'confidence' (0-1), and 'reasoning' fields.'' verify_framing
   \<and> (resolveApiKey (REKA_API_KEY w) ctx = Some key \<and> key \<noteq> [] \<longrightarrow>
        snd (verify_claim w claim ctx) = [upstream_request (verify_requestPayload claim) key])"
proof (intro conjI impI)
  show "snd (verifyClaimWithReka w claim key) = [upstream_request (verify_requestPayload claim) key]"
    by (rule verifyClaimWithReka_calls)
  show "body (upstream_request (verify_requestPayload claim) key) = verify_requestPayload claim"
    by (simp add: upstream_request_def)
  show "model (verify_requestPayload claim) = ''reka-flash-research''"
    by (simp add: verify_requestPayload_def)
  show "messages (verify_requestPayload claim) = [\<lparr>role = ''user'', message.content = verify_framing @ claim\<rparr>]"
    by (simp add: verify_requestPayload_def)
  show "sublist claim (verify_framing @ claim)"
    by (rule sublist_append_leftI)
  show "sublist ''Return your response as a JSON object with 'verdict' (true/false/uncertain), 'confidence' (0-1), and 'reasoning' fields.'' verify_framing"
    by (rule verify_framing_fields)
  assume "resolveApiKey (REKA_API_KEY w) ctx = Some key \<and> key \<noteq> []"
  then show "snd (verify_claim w claim ctx) = [upstream_request (verify_requestPayload claim) key]"
    by (simp add: verify_claim_resolved)
qed

theorem verify_claim_prompt_witness:
  "snd (verify_claim \<lparr>REKA_API_KEY = Some ''K1'', fetch = fetch_rejects (Error ''fetch failed'')\<rparr>
          ''The Earth is round'' None)
     = [\<lparr>url = ''https://api.reka.ai/v1/chat/completions'', http_method = ''POST'',
         http_headers = [(''Content-Type'', ''application/json''), (''Authorization'', ''Bearer K1'')],
         body = \<lparr>model = ''reka-flash-research'',
                 messages = [\<lparr>role = ''user'',
                              message.content = ''Analyze the given claim and provide a verification assessment. Return your response as a JSON object with 'verdict' (true/false/uncertain), 'confidence' (0-1), and 'reasoning' fields. Please verify this claim: The Earth is round''\<rparr>]\<rparr>\<rparr>]
   \<and> sublist ''The Earth is round'' (verify_framing @ ''The Earth is round'')"
proof -
  let ?w = "\<lparr>REKA_API_KEY = Some ''K1'', fetch = fetch_rejects (Error ''fetch failed'')\<rparr>"
  have k: "resolveApiKey (REKA_API_KEY ?w) None = Some ''K1'' \<and> ''K1'' \<noteq> []"
    by (simp add: resolveApiKey_def bearerToken_def)
  show ?thesis
    using verify_claim_prompt [of ?w "''The Earth is round''" "''K1''" None] k
    by (simp add: upstream_request_def verify_requestPayload_def verify_framing_def)
qed



text \<open>
  C10. The empty string passes validation: \<^verbatim>\<open>verify_claim\<close> with an empty claim, and
  \<^verbatim>\<open>find_similar\<close> with an empty target or an empty attribute, are not rejected as invalid
  arguments; they reach the handler and, when the key is resolved, the upstream request is
  sent.
\<close>

theorem empty_string_arguments_accepted:
  "z_string (argument (JObj [(''claim'', JStr '''')]) ''claim'') = Some ''''
   \<and> (\<exists>r. fst (call_verify_claim w (JObj [(''claim'', JStr '''')]) ctx) = Inr r)
   \<and> snd (call_verify_claim w (JObj [(''claim'', JStr '''')]) ctx) = snd (verify_claim w '''' ctx)
   \<and> (\<exists>r. fst (call_find_similar w (JObj [(''target'', JStr ''''), (''attribute'', JStr attribute)]) ctx) = Inr r)
   \<and> (\<exists>r. fst (call_find_similar w (JObj [(''target'', JStr target), (''attribute'', JStr '''')]) ctx) = Inr r)
   \<and> (resolveApiKey (REKA_API_KEY w) ctx = Some key \<and> key \<noteq> [] \<longrightarrow>
        snd (call_verify_claim w (JObj [(''claim'', JStr '''')]) ctx)
          = [upstream_request (verify_requestPayload '''') key]
        \<and> snd (call_find_similar w (JObj [(''target'', JStr ''''), (''attribute'', JStr attribute)]) ctx)
          = [upstream_request (similar_requestPayload '''' attribute) key]
        \<and> snd (call_find_similar w (JObj [(''target'', JStr target), (''attribute'', JStr '''')]) ctx)
          = [upstream_request (similar_requestPayload target '''') key])"
proof (intro conjI impI)
  show "z_string (argument (JObj [(''claim'', JStr '''')]) ''claim'') = Some ''''"
    by simp
  show "\<exists>r. fst (call_verify_claim w (JObj [(''claim'', JStr '''')]) ctx) = Inr r"
    by (simp add: call_verify_claim_reaches_handler)
  show "snd (call_verify_claim w (JObj [(''claim'', JStr '''')]) ctx) = snd (verify_claim w '''' ctx)"
    by (simp add: call_verify_claim_reaches_handler)
  show "\<exists>r. fst (call_find_similar w (JObj [(''target'', JStr ''''), (''attribute'', JStr attribute)]) ctx) = Inr r"
    by (simp add: call_find_similar_reaches_handler)
  show "\<exists>r. fst (call_find_similar w (JObj [(''target'', JStr target), (''attribute'', JStr '''')]) ctx) = Inr r"
    by (simp add: call_find_similar_reaches_handler)
next
  assume k: "resolveApiKey (REKA_API_KEY w) ctx = Some key \<and> key \<noteq> []"
  then show "snd (call_verify_claim w (JObj [(''claim'', JStr '''')]) ctx)
          = [upstream_request (verify_requestPayload '''') key]"
    by (simp add: call_verify_claim_reaches_handler verify_claim_resolved)
  from k show "snd (call_find_similar w (JObj [(''target'', JStr ''''), (''attribute'', JStr attribute)]) ctx)
          = [upstream_request (similar_requestPayload '''' attribute) key]"
    by (simp add: call_find_similar_reaches_handler find_similar_resolved)
  from k show "snd (call_find_similar w (JObj [(''target'', JStr target), (''attribute'', JStr '''')]) ctx)
          = [upstream_request (similar_requestPayload target '''') key]"
    by (simp add: call_find_similar_reaches_handler find_similar_resolved)
qed

theorem empty_string_arguments_accepted_witness:
  "call_verify_claim
     \<lparr>REKA_API_KEY = Some ''K1'',
      fetch = fetch_resolves \<lparr>status = 200, statusText = ''OK'', text_result = Inr ''{}'',
                              json_result = Inr (completion (JStr ''uncertain''))\<rparr>\<rparr>
     (JObj [(''claim'', JStr '''')]) None
   = (Inr \<lparr>content = [\<lparr>block_type = ''text'', block_text = JStr ''uncertain''\<rparr>]\<rparr>,
      [upstream_request (verify_requestPayload '''') ''K1''])
   \<and> snd (call_find_similar
        \<lparr>REKA_API_KEY = Some ''K1'',
         fetch = fetch_resolves \<lparr>status = 200, statusText = ''OK'', text_result = Inr ''{}'',
                                 json_result = Inr (completion (JStr ''uncertain''))\<rparr>\<rparr>
        (JObj [(''target'', JStr ''''), (''attribute'', JStr '''')]) None)
     = [upstream_request (similar_requestPayload '''' '''') ''K1'']"
proof -
  let ?w = "\<lparr>REKA_API_KEY = Some ''K1'',
      fetch = fetch_resolves \<lparr>status = 200, statusText = ''OK'', text_result = Inr ''{}'',
                              json_result = Inr (completion (JStr ''uncertain''))\<rparr>\<rparr>"
  have k: "resolveApiKey (REKA_API_KEY ?w) None = Some ''K1'' \<and> ''K1'' \<noteq> []"
    by (simp add: resolveApiKey_def bearerToken_def)
  have c: "fst (verifyClaimWithReka ?w '''' ''K1'') = Inr (JStr ''uncertain'')"
    by (simp add: verifyClaimWithReka_def send_def Let_def fetch_resolves_def ok_def
          extract_result_completion)
  have v: "fst (verify_claim ?w '''' None) = Inr (text_response (JStr ''uncertain''))"
    using k c by (simp add: verify_claim_resolved)
  have vs: "snd (verify_claim ?w '''' None) = [upstream_request (verify_requestPayload '''') ''K1'']"
    using k by (simp add: verify_claim_resolved)
  have "fst (call_verify_claim ?w (JObj [(''claim'', JStr '''')]) None)
          = Inr (text_response (JStr ''uncertain''))"
    using v by (simp add: call_verify_claim_reaches_handler)
  then show ?thesis
    using empty_string_arguments_accepted [of ?w None "''''" "''''" "''K1''"] k vs
    by (simp add: text_response_def prod_eq_iff)
qed

end
